theory Spec2Isabelle
  imports Complex_Main "HOL-Library.Log_Nat"
begin

section \<open>Data model\<close>

text \<open>
  The program is \<^verbatim>\<open>transcribe.py\<close>. Its numbers are Python floats (and the int \<open>0\<close>
  of one branch); they are modelled as reals. Comparisons, \<open>divmod\<close>, \<open>int\<close>, \<open>round\<close>
  and the number formats are written out below with Python's conventions (floor
  division, truncation, ties to even). The arithmetic of the clip range is exact; in
  \<open>sec2hmmssms\<close> the product that is rounded to the hundredths is rounded to binary64
  first, as Python computes it. Infinities and not-a-number are outside the model.

  A detected clip is pyannote's \<open>Segment\<close> with its attributes \<open>clip.start\<close> and
  \<open>clip.end\<close>; a transcript entry is the dict with the keys \<open>'start'\<close>, \<open>'end'\<close> and
  \<open>'text'\<close> that \<open>main\<close> appends.
\<close>

record segment =
  seg_start :: real
  seg_end :: real

record transcript_entry =
  entry_start :: real
  entry_end :: real
  entry_text :: string

section \<open>Cutting the clip (lines 45 to 47 of main)\<close>

text \<open>\<^verbatim>\<open>clip_start = clip.start*1000 - 1000 if clip.start > 1 else 0\<close>\<close>

definition clip_start :: "segment \<Rightarrow> real" where
  "clip_start clip = (if seg_start clip > 1 then seg_start clip * 1000 - 1000 else 0)"

text \<open>\<^verbatim>\<open>clip_end = clip.end*1000 + 1000 if clip.end < duration - 1 else duration*1000\<close>\<close>

definition clip_end :: "real \<Rightarrow> segment \<Rightarrow> real" where
  "clip_end duration clip =
     (if seg_end clip < duration - 1 then seg_end clip * 1000 + 1000 else duration * 1000)"

section \<open>Python's number primitives\<close>

text \<open>
  \<open>divmod(x, y)\<close>: floor division, the remainder has the sign of the divisor. Both calls
  of the program divide by 60; a zero divisor, where Python raises, does not occur.
\<close>

definition py_divmod :: "real \<Rightarrow> real \<Rightarrow> real \<times> real" where
  "py_divmod x y = (let q = of_int \<lfloor>x / y\<rfloor> in (q, x - q * y))"

text \<open>\<open>int(x)\<close> truncates towards zero.\<close>

definition py_int :: "real \<Rightarrow> int" where
  "py_int x = (if 0 \<le> x then \<lfloor>x\<rfloor> else \<lceil>x\<rceil>)"

text \<open>\<open>round(x)\<close> with one argument rounds to the nearest integer, a tie to the even one.\<close>

definition py_round :: "real \<Rightarrow> int" where
  "py_round x =
     (let f = \<lfloor>x\<rfloor>; d = x - of_int f
      in if d < 1 / 2 then f
         else if 1 / 2 < d then f + 1
         else if even f then f else f + 1)"

text \<open>
  The binary64 number nearest to a real, a tie to the even significand: what a float
  operation returns for the exact result \<open>x\<close>. With \<open>a = \<bar>x\<bar> * 2 ^ 1074\<close>, binary64
  numbers are spaced by \<open>2 ^ -1074\<close> as long as \<open>\<lfloor>a\<rfloor>\<close> has at most 53 bits, and the
  spacing doubles with each further bit. Overflow, from \<open>2 ^ 1024\<close> on, is not modelled.
\<close>

definition round_binary64 :: "real \<Rightarrow> real" where
  "round_binary64 x =
     (let a = \<bar>x\<bar> * 2 ^ 1074;
          k = nat (bitlen \<lfloor>a\<rfloor> - 53);
          r = of_int (py_round (a / 2 ^ k)) * 2 ^ k / 2 ^ 1074
      in if x < 0 then - r else r)"

section \<open>Python's number formats\<close>

definition digit :: "nat \<Rightarrow> char" where
  "digit n = ''0123456789'' ! n"

text \<open>The decimal digits of a natural number, as \<open>str\<close> prints them.\<close>

fun str_nat :: "nat \<Rightarrow> string" where
  "str_nat n = (if n < 10 then [digit n] else str_nat (n div 10) @ [digit (n mod 10)])"

declare str_nat.simps [simp del]

text \<open>\<open>f'{n}'\<close> for an int.\<close>

definition str_int :: "int \<Rightarrow> string" where
  "str_int n = (if n < 0 then CHR ''-'' # str_nat (nat (- n)) else str_nat (nat n))"

text \<open>
  Zero padding of the format specifications \<open>02d\<close> and \<open>02.0f\<close>: the sign comes first,
  then zeros up to the width 2, then the digits.
\<close>

definition zero_pad2 :: "bool \<Rightarrow> string \<Rightarrow> string" where
  "zero_pad2 neg ds =
     (if neg then CHR ''-'' # replicate (1 - length ds) CHR ''0'' @ ds
      else replicate (2 - length ds) CHR ''0'' @ ds)"

text \<open>\<open>f'{n:02d}'\<close> for an int.\<close>

definition format_02d :: "int \<Rightarrow> string" where
  "format_02d n = zero_pad2 (n < 0) (str_nat (nat \<bar>n\<bar>))"

text \<open>
  \<open>f'{x:02.0f}'\<close>: no digit after the point, so the value is rounded to an integer
  (a tie to the even one) and no point is printed.
\<close>

definition format_02_0f :: "real \<Rightarrow> string" where
  "format_02_0f x = zero_pad2 (x < 0) (str_nat (nat \<bar>py_round x\<bar>))"

section \<open>sec2hmmssms\<close>

text \<open>
  \<^verbatim>\<open>
  m, s = divmod(sec, 60)
  h, m = divmod(m, 60)
  ms = round((s - int(s)) * 100)
  return f'{round(h)}:{round(m):02d}:{s:02.0f}.{ms:02d}'
  \<close>
  For a float \<open>sec\<close> from 0 up to the 10 hours of the docstring every operation but
  the product by 100 is exact in binary64: the remainder of \<open>divmod\<close> is that of
  \<open>fmod\<close>, the whole minutes are an integer below 600, and \<open>s - int(s)\<close> has no more
  bits than \<open>s\<close>. The product is rounded to binary64 before \<open>round\<close> sees it.
\<close>

definition sec2hmmssms :: "real \<Rightarrow> string" where
  "sec2hmmssms sec =
     (let (m, s) = py_divmod sec 60;
          (h, m) = py_divmod m 60;
          ms = py_round (round_binary64 ((s - of_int (py_int s)) * 100))
      in str_int (py_round h) @ '':'' @ format_02d (py_round m) @ '':'' @
         format_02_0f s @ ''.'' @ format_02d ms)"

section \<open>The transcription loop of main (lines 41 to 55)\<close>

text \<open>
  Text is a list of characters; a \<open>char\<close> stands for a code point below 256.
  \<open>str.strip()\<close> removes the whitespace of both ends; below 256 the characters that
  Python counts as whitespace are 9 to 13, 28 to 32, 133 and 160.
\<close>

definition py_isspace :: "char \<Rightarrow> bool" where
  "py_isspace c =
     (let n = (of_char c :: nat)
      in (9 \<le> n \<and> n \<le> 13) \<or> (28 \<le> n \<and> n \<le> 32) \<or> n = 133 \<or> n = 160)"

definition strip :: "string \<Rightarrow> string" where
  "strip s = rev (dropWhile py_isspace (rev (dropWhile py_isspace s)))"

text \<open>
  The voice activity detection, the audio file and the speech recognition are external:
  \<open>duration\<close> is \<open>raw_audio.duration_seconds\<close>, the list of segments is what
  \<open>tr_clips.itertracks\<close> yields, and \<open>model cs ce\<close> is the \<open>result['text']\<close> that
  whisper returns for the clip \<open>raw_audio[cs:ce]\<close>. The loop appends to \<open>transcript\<close>:
  \<^verbatim>\<open>
  for clip, _ in tr_clips.itertracks(yield_label=False):
      clip_start = ...; duration = ...; clip_end = ...
      tr = raw_audio[clip_start:clip_end]
      result = model.transcribe('temp/tr.wav', language='English')
      text = result['text'].strip()
      if text:
          transcript.append({'start': clip_start/1000 + 0.9, 'end': clip.end, 'text': text})
  \<close>
\<close>

fun main_loop ::
  "real \<Rightarrow> (real \<Rightarrow> real \<Rightarrow> string) \<Rightarrow> segment list \<Rightarrow> transcript_entry list
     \<Rightarrow> transcript_entry list" where
  "main_loop duration model [] transcript = transcript"
| "main_loop duration model (clip # tr_clips) transcript =
     (let cs = clip_start clip;
          ce = clip_end duration clip;
          text = strip (model cs ce)
      in if text \<noteq> []
         then main_loop duration model tr_clips
                (transcript @
                 [\<lparr>entry_start = cs / 1000 + 0.9, entry_end = seg_end clip, entry_text = text\<rparr>])
         else main_loop duration model tr_clips transcript)"

section \<open>make_ass\<close>

text \<open>
  The files that \<open>make_ass\<close> reads and writes are a map from paths to files. The
  \<open>json\<close> library is external: a file that holds a transcript as \<open>main\<close> writes it
  with \<open>json.dump\<close> (a JSON array of objects with the keys \<open>start\<close>, \<open>end\<close> and
  \<open>text\<close>) is represented by the decoded list, any other file by its text. Reading a
  path that has no file raises \<open>FileNotFoundError\<close>; on a file that is not such a
  transcript \<open>json.load\<close> or the subscripts of the loop raise, which the model
  collects in \<open>BadTranscript\<close>.
\<close>

datatype file_content = Json "transcript_entry list" | Text string

type_synonym fs = "string \<rightharpoonup> file_content"

datatype error = FileNotFoundError | BadTranscript

definition subtitle_header :: string where
  "subtitle_header =
     ''[Script Info]\<newline>'' @
     ''Title: Default Aegisub file\<newline>'' @
     ''ScriptType: v4.00+\<newline>'' @
     ''WrapStyle: 0\<newline>'' @
     ''ScaledBorderAndShadow: yes\<newline>'' @
     ''YCbCr Matrix: None\<newline>\<newline>'' @
     ''[V4+ Styles]\<newline>'' @
     ''Format: Name, Fontname, Fontsize, PrimaryColour, SecondaryColour, OutlineColour, '' @
     ''BackColour, Bold, Italic, Underline, StrikeOut, ScaleX, ScaleY, Spacing, Angle, '' @
     ''BorderStyle, Outline, Shadow, Alignment, MarginL, MarginR, MarginV, Encoding\<newline>'' @
     ''Style: English,Arial,14,&H00FFFFFF,&H000000FF,&H00000000,&H00000000,0,0,0,0,100,'' @
     ''100,0,0,1,0.5,0,2,10,10,10,1\<newline>\<newline>'' @
     ''[Events]\<newline>'' @
     ''Format: Layer, Start, End, Style, Name, MarginL, MarginR, MarginV, Effect, Text\<newline>''"

text \<open>\<^verbatim>\<open>f'Dialogue: 0,{start},{end},English,,0,0,0,,{tr["text"]}\n'\<close>\<close>

definition dialogue :: "transcript_entry \<Rightarrow> string" where
  "dialogue tr =
     (let start = sec2hmmssms (entry_start tr);
          end' = sec2hmmssms (entry_end tr)
      in ''Dialogue: 0,'' @ start @ '','' @ end' @ '',English,,0,0,0,,'' @ entry_text tr @
         ''\<newline>'')"

text \<open>\<^verbatim>\<open>for tr in trs: ... subtitle += ...\<close>\<close>

fun add_dialogues :: "string \<Rightarrow> transcript_entry list \<Rightarrow> string" where
  "add_dialogues subtitle [] = subtitle"
| "add_dialogues subtitle (tr # trs) = add_dialogues (subtitle @ dialogue tr) trs"

text \<open>\<open>str.removesuffix\<close>\<close>

definition removesuffix :: "string \<Rightarrow> string \<Rightarrow> string" where
  "removesuffix s suf =
     (if suf \<noteq> [] \<and> length suf \<le> length s \<and> drop (length s - length suf) s = suf
      then take (length s - length suf) s else s)"

definition make_ass :: "string \<Rightarrow> fs \<Rightarrow> error + fs" where
  "make_ass transcript files =
     (case files transcript of
        None \<Rightarrow> Inl FileNotFoundError
      | Some (Text _) \<Rightarrow> Inl BadTranscript
      | Some (Json trs) \<Rightarrow>
          Inr (files(removesuffix transcript ''.json'' @ ''.ass''
                 \<mapsto> Text (add_dialogues subtitle_header trs))))"

section \<open>The format as the specification words it\<close>

text \<open>
  This definition follows the words of the specification (section 4.3), not the source,
  and is only compared with \<open>sec2hmmssms\<close>: the form \<open>H:MM:SS.CC\<close> with the hours
  unpadded, the minutes and the integral seconds padded to two digits, and the fraction
  of the second rounded to hundredths.
\<close>

definition spec_sec2hmmssms :: "real \<Rightarrow> string" where
  "spec_sec2hmmssms sec =
     str_int \<lfloor>sec / 3600\<rfloor> @ '':'' @ format_02d (\<lfloor>sec / 60\<rfloor> mod 60) @ '':'' @
     format_02d (\<lfloor>sec\<rfloor> mod 60) @ ''.'' @ format_02d (py_round (frac sec * 100))"

section \<open>Evaluation and shared lemmas\<close>

lemmas format_defs =
  sec2hmmssms_def py_divmod_def py_int_def py_round_def str_int_def format_02d_def
  format_02_0f_def zero_pad2_def str_nat.simps digit_def

text \<open>The loop appends, in order, one entry for each clip whose text is not empty.\<close>

lemma main_loop_append:
  "main_loop D M segs acc =
     acc @ concat (map (\<lambda>clip.
       if strip (M (clip_start clip) (clip_end D clip)) \<noteq> []
       then [\<lparr>entry_start = clip_start clip / 1000 + 0.9, entry_end = seg_end clip,
              entry_text = strip (M (clip_start clip) (clip_end D clip))\<rparr>]
       else []) segs)"
  by (induction segs arbitrary: acc) (simp_all add: Let_def)

text \<open>The subtitle is the header followed by the lines of the entries, in order.\<close>

lemma add_dialogues_append:
  "add_dialogues subtitle trs = subtitle @ concat (map dialogue trs)"
  by (induction trs arbitrary: subtitle) simp_all

subsection \<open>Rounding to an integer\<close>

lemma py_round_of_int: "py_round (of_int n) = n"
  by (simp add: py_round_def)

lemma py_round_bounds: "\<lfloor>x\<rfloor> \<le> py_round x \<and> py_round x \<le> \<lfloor>x\<rfloor> + 1"
  by (simp add: py_round_def Let_def)

lemma py_round_le_int: "x \<le> of_int n \<Longrightarrow> py_round x \<le> n"
proof (cases "x = of_int n")
  case True
  then show ?thesis by (simp add: py_round_of_int)
next
  case False
  assume "x \<le> of_int n"
  with False have "x < of_int n" by simp
  then have "\<lfloor>x\<rfloor> < n" by (simp add: floor_less_iff)
  with py_round_bounds [of x] show ?thesis by linarith
qed

subsection \<open>Rounding to binary64\<close>

lemma round_binary64_0: "round_binary64 0 = 0"
  by (simp add: round_binary64_def py_round_def)

lemma round_binary64_nonneg:
  "0 \<le> x \<Longrightarrow>
   round_binary64 x =
     of_int (py_round (x * 2 ^ 1074 / 2 ^ nat (bitlen \<lfloor>x * 2 ^ 1074\<rfloor> - 53))) *
     2 ^ nat (bitlen \<lfloor>x * 2 ^ 1074\<rfloor> - 53) / 2 ^ 1074"
proof -
  assume "0 \<le> x"
  then have "\<bar>x\<bar> = x" "\<not> x < 0" by simp_all
  then show ?thesis unfolding round_binary64_def Let_def by (simp only: if_False)
qed

text \<open>
  In the binade of \<open>x\<close>, where \<open>x * 2 ^ m\<close> has 53 bits before the point, the result
  is \<open>x * 2 ^ m\<close> rounded to an integer, scaled back.
\<close>

lemma round_binary64_binade:
  assumes m: "m \<le> 1074" and lo: "2 ^ 52 \<le> x * 2 ^ m" and hi: "x * 2 ^ m < 2 ^ 53"
  shows "round_binary64 x = of_int (py_round (x * 2 ^ m)) / 2 ^ m"
proof -
  define j where "j = 1074 - m"
  define P :: real where "P = 2 ^ 1074"
  have P: "P = 2 ^ m * 2 ^ j" using m by (simp add: P_def j_def flip: power_add)
  have pos: "0 \<le> x"
  proof (rule ccontr)
    assume "\<not> 0 \<le> x"
    then have "x * 2 ^ m \<le> 0" by (simp add: mult_le_0_iff)
    moreover have "(0::real) < 2 ^ 52" by simp
    ultimately show False using lo by linarith
  qed
  define a where "a = x * P"
  have a: "a = (x * 2 ^ m) * 2 ^ j" by (simp add: a_def P)
  have "(2::real) ^ 52 * 2 ^ j \<le> a" unfolding a using lo by (simp add: mult_right_mono)
  then have "of_int (2 ^ (52 + j)) \<le> a" by (simp add: power_add)
  then have lo': "2 ^ (52 + j) \<le> \<lfloor>a\<rfloor>" by (simp only: le_floor_iff)
  have "a < 2 ^ 53 * 2 ^ j" unfolding a using hi by (simp add: mult_strict_right_mono)
  then have "a < of_int (2 ^ (53 + j))" by (simp add: power_add)
  then have hi': "\<lfloor>a\<rfloor> < 2 ^ (53 + j)" by (simp only: floor_less_iff)
  have "bitlen \<lfloor>a\<rfloor> \<le> int (53 + j)"
    unfolding bitlen_le_iff_power nat_int using hi' by simp
  moreover have "nat (int (53 + j)) - 1 = 52 + j" by simp
  then have "int (53 + j) \<le> bitlen \<lfloor>a\<rfloor>"
    unfolding bitlen_ge_iff_power using lo' by simp
  ultimately have "bitlen \<lfloor>a\<rfloor> = int (53 + j)" by simp
  then have k: "nat (bitlen \<lfloor>a\<rfloor> - 53) = j" by simp
  have aj: "a / 2 ^ j = x * 2 ^ m" by (simp add: a)
  have scale: "(2::real) ^ j / P = 1 / 2 ^ m" by (simp add: P)
  have "of_int (py_round (a / 2 ^ j)) * 2 ^ j / P =
      of_int (py_round (x * 2 ^ m)) * (2 ^ j / P)"
    unfolding aj by simp
  also have "\<dots> = of_int (py_round (x * 2 ^ m)) / 2 ^ m"
    unfolding scale by simp
  finally show ?thesis
    unfolding round_binary64_nonneg [OF pos] P_def [symmetric] a_def [symmetric] k .
qed

text \<open>Rounding keeps a value between 0 and 100 there: both are binary64 numbers.\<close>

lemma round_binary64_range:
  assumes "0 \<le> x" and "x \<le> 100"
  shows "0 \<le> round_binary64 x \<and> round_binary64 x \<le> 100"
proof -
  define P :: real where "P = 2 ^ 1074"
  define a where "a = x * P"
  define k where "k = nat (bitlen \<lfloor>a\<rfloor> - 53)"
  have P0: "0 < P" by (simp add: P_def)
  have a0: "0 \<le> a" using assms P0 by (simp add: a_def)
  have a100: "a \<le> 100 * P" using assms P0 by (simp add: a_def)
  also have "\<dots> < 2 ^ 7 * P" using P0 by simp
  also have "\<dots> = of_int (2 ^ 1081)" by (simp add: P_def flip: power_add)
  finally have "\<lfloor>a\<rfloor> < 2 ^ 1081" by (simp only: floor_less_iff)
  then have "bitlen \<lfloor>a\<rfloor> \<le> int 1081"
    unfolding bitlen_le_iff_power nat_int by simp
  then have k: "k \<le> 1028" by (simp add: k_def)
  define j where "j = 1074 - k"
  have P: "P = 2 ^ j * 2 ^ k" using k by (simp add: P_def j_def flip: power_add)
  have "0 \<le> a / 2 ^ k" using a0 by simp
  then have "0 \<le> \<lfloor>a / 2 ^ k\<rfloor>" by simp
  with py_round_bounds [of "a / 2 ^ k"] have r0: "0 \<le> py_round (a / 2 ^ k)" by linarith
  have "a / 2 ^ k \<le> 100 * P / 2 ^ k"
    using a100 by (simp add: divide_right_mono)
  also have "\<dots> = of_int (100 * 2 ^ j)" by (simp add: P)
  finally have "py_round (a / 2 ^ k) \<le> 100 * 2 ^ j" by (rule py_round_le_int)
  then have "real_of_int (py_round (a / 2 ^ k)) \<le> real_of_int (100 * 2 ^ j)"
    by (simp only: of_int_le_iff)
  then have "real_of_int (py_round (a / 2 ^ k)) \<le> 100 * 2 ^ j" by simp
  then have "real_of_int (py_round (a / 2 ^ k)) * 2 ^ k \<le> 100 * 2 ^ j * 2 ^ k"
    by (simp add: mult_right_mono)
  also have "\<dots> = 100 * P" by (simp add: P)
  finally have "real_of_int (py_round (a / 2 ^ k)) * 2 ^ k / P \<le> 100"
    using P0 by (simp add: field_simps)
  moreover have "0 \<le> real_of_int (py_round (a / 2 ^ k)) * 2 ^ k / P"
    using r0 P0 by simp
  ultimately show ?thesis
    unfolding round_binary64_nonneg [OF assms(1)] P_def [symmetric] a_def [symmetric]
      k_def [symmetric] by simp
qed

text \<open>The rounding at numbers from 32 up to 64, from 64 up to 128, and from 0.5 up to 1.\<close>

lemmas round_binary64_evals =
  round_binary64_0 round_binary64_binade [of 47] round_binary64_binade [of 46]
  round_binary64_binade [of 53]

subsection \<open>The two calls of divmod\<close>

lemma seconds_range:
  "0 \<le> sec - of_int \<lfloor>sec / 60\<rfloor> * 60 \<and> sec - of_int \<lfloor>sec / 60\<rfloor> * 60 < 60"
proof -
  have "of_int \<lfloor>sec / 60\<rfloor> \<le> sec / 60" "sec / 60 < of_int \<lfloor>sec / 60\<rfloor> + 1"
    by linarith+
  then show ?thesis by simp
qed

lemma py_divmod_minutes:
  "py_divmod (of_int k) 60 = (of_int (k div 60), of_int (k mod 60))"
proof -
  have "\<lfloor>(of_int k :: real) / 60\<rfloor> = k div 60"
    using floor_divide_of_int_eq [of k 60, where ?'a = real] by simp
  moreover have "(of_int k :: real) - of_int (k div 60) * 60 = of_int (k mod 60)"
    by (simp add: minus_div_mult_eq_mod [symmetric])
  ultimately show ?thesis by (simp add: py_divmod_def Let_def)
qed

lemma hours_floor: "\<lfloor>(sec::real) / 60\<rfloor> div 60 = \<lfloor>sec / 3600\<rfloor>"
  using floor_divide_real_eq_div [of 60 "sec / 60"] by simp

text \<open>
  The four fields of the result, for every input: the hours and minutes of the whole
  minutes, the seconds \<open>s\<close> of the first \<open>divmod\<close> through the format \<open>02.0f\<close>, and the
  rounded hundredths of the fraction of \<open>s\<close>, the product rounded to binary64 first.
\<close>

lemma sec2hmmssms_fields:
  "sec2hmmssms sec =
     str_int \<lfloor>sec / 3600\<rfloor> @ '':'' @ format_02d (\<lfloor>sec / 60\<rfloor> mod 60) @ '':'' @
     format_02_0f (sec - of_int \<lfloor>sec / 60\<rfloor> * 60) @ ''.'' @
     format_02d (py_round (round_binary64 (frac (sec - of_int \<lfloor>sec / 60\<rfloor> * 60) * 100)))"
proof -
  define s where "s = sec - of_int \<lfloor>sec / 60\<rfloor> * 60"
  have "0 \<le> s" using seconds_range [of sec] by (simp add: s_def)
  then have "py_int s = \<lfloor>s\<rfloor>" by (simp add: py_int_def)
  moreover have "py_divmod sec 60 = (of_int \<lfloor>sec / 60\<rfloor>, s)"
    by (simp add: py_divmod_def s_def Let_def)
  ultimately show ?thesis
    unfolding s_def [symmetric]
    by (simp add: sec2hmmssms_def py_divmod_minutes py_round_of_int hours_floor frac_def)
qed

subsection \<open>Digits\<close>

lemma str_nat_digit: "n < 10 \<Longrightarrow> str_nat n = [digit n]"
  by (simp add: str_nat.simps)

lemma str_nat_two_digits:
  "10 \<le> n \<Longrightarrow> n < 100 \<Longrightarrow> str_nat n = [digit (n div 10), digit (n mod 10)]"
  by (subst str_nat.simps) (simp add: str_nat_digit)

lemma format_02d_two_digits:
  "0 \<le> n \<Longrightarrow> n < 100 \<Longrightarrow>
   format_02d n = [digit (nat n div 10), digit (nat n mod 10)]"
proof (cases "n < 10")
  case True
  assume "0 \<le> n"
  with True have "nat n < 10" "nat n div 10 = 0" by simp_all
  with \<open>0 \<le> n\<close> show ?thesis
    by (simp add: format_02d_def zero_pad2_def str_nat_digit digit_def)
next
  case False
  assume "0 \<le> n" "n < 100"
  with False have "10 \<le> nat n" "nat n < 100" by simp_all
  with \<open>0 \<le> n\<close> show ?thesis
    by (simp add: format_02d_def zero_pad2_def str_nat_two_digits)
qed

lemma format_02d_100: "format_02d 100 = ''100''"
  by (simp add: format_02d_def zero_pad2_def str_nat.simps digit_def)

lemma format_02_0f_nonneg: "0 \<le> x \<Longrightarrow> format_02_0f x = format_02d (py_round x)"
proof -
  assume "0 \<le> x"
  then have "0 \<le> \<lfloor>x\<rfloor>" by simp
  with py_round_bounds [of x] have "0 \<le> py_round x" by linarith
  with \<open>0 \<le> x\<close> show ?thesis by (simp add: format_02_0f_def format_02d_def)
qed

lemma centiseconds_range:
  "0 \<le> py_round (round_binary64 (frac x * 100)) \<and>
   py_round (round_binary64 (frac x * 100)) \<le> 100"
proof -
  have "0 \<le> frac x * 100" "frac x * 100 \<le> 100"
    using frac_ge_0 [of x] frac_lt_1 [of x] by simp_all
  then have r: "0 \<le> round_binary64 (frac x * 100)" "round_binary64 (frac x * 100) \<le> 100"
    using round_binary64_range [of "frac x * 100"] by simp_all
  from r(1) have "0 \<le> \<lfloor>round_binary64 (frac x * 100)\<rfloor>" by simp
  with py_round_bounds [of "round_binary64 (frac x * 100)"]
  have "0 \<le> py_round (round_binary64 (frac x * 100))" by linarith
  moreover from r(2) have "py_round (round_binary64 (frac x * 100)) \<le> 100"
    using py_round_le_int [of "round_binary64 (frac x * 100)" 100] by simp
  ultimately show ?thesis by simp
qed

subsection \<open>Evaluating the format at a given time\<close>

lemma sec2hmmssms_eval:
  assumes "\<lfloor>sec / 3600\<rfloor> = h" and "\<lfloor>sec / 60\<rfloor> mod 60 = m"
    and "sec - of_int \<lfloor>sec / 60\<rfloor> * 60 = s"
    and "py_round (round_binary64 (frac s * 100)) = c"
  shows "sec2hmmssms sec =
     str_int h @ '':'' @ format_02d m @ '':'' @ format_02_0f s @ ''.'' @ format_02d c"
  unfolding sec2hmmssms_fields assms ..

lemmas field_defs =
  str_int_def format_02d_def format_02_0f_def zero_pad2_def str_nat.simps digit_def py_round_def

lemmas hundredths_defs = frac_def py_round_def round_binary64_evals

lemma dialogue_times:
  "sec2hmmssms 1.9 = ''0:00:02.90''" "sec2hmmssms 8 = ''0:00:08.00''"
proof -
  have "sec2hmmssms 1.9 =
      str_int 0 @ '':'' @ format_02d 0 @ '':'' @ format_02_0f 1.9 @ ''.'' @ format_02d 90"
    by (rule sec2hmmssms_eval) (simp_all add: hundredths_defs)
  then show "sec2hmmssms 1.9 = ''0:00:02.90''" by (simp add: field_defs)
  have "sec2hmmssms 8 =
      str_int 0 @ '':'' @ format_02d 0 @ '':'' @ format_02_0f 8 @ ''.'' @ format_02d 0"
    by (rule sec2hmmssms_eval) (simp_all add: hundredths_defs)
  then show "sec2hmmssms 8 = ''0:00:08.00''" by (simp add: field_defs)
qed

section \<open>The clip range\<close>

text \<open>
  Claim C1. For a segment and a duration \<open>D\<close>, the start of the clip in milliseconds is
  \<open>start * 1000 - 1000\<close> when \<open>start > 1\<close> and \<open>0\<close> when \<open>start \<le> 1\<close>; its end is
  \<open>end * 1000 + 1000\<close> when \<open>end < D - 1\<close> and \<open>D * 1000\<close> when \<open>end \<ge> D - 1\<close>.
\<close>

theorem clip_range_computed:
  "(1 < seg_start clip \<longrightarrow> clip_start clip = seg_start clip * 1000 - 1000) \<and>
   (seg_start clip \<le> 1 \<longrightarrow> clip_start clip = 0) \<and>
   (seg_end clip < D - 1 \<longrightarrow> clip_end D clip = seg_end clip * 1000 + 1000) \<and>
   (D - 1 \<le> seg_end clip \<longrightarrow> clip_end D clip = D * 1000)"
  by (simp add: clip_start_def clip_end_def)

text \<open>
  The four cases at two segments of a 10 second file: from 2 to 8 seconds (padded on
  both sides) and from 0.5 to 9.5 seconds (clamped on both sides).
\<close>

theorem clip_range_computed_witness:
  "1 < seg_start \<lparr>seg_start = 2, seg_end = 8\<rparr> \<and>
   clip_start \<lparr>seg_start = 2, seg_end = 8\<rparr> = 1000 \<and>
   seg_end \<lparr>seg_start = 2, seg_end = 8\<rparr> < 10 - 1 \<and>
   clip_end 10 \<lparr>seg_start = 2, seg_end = 8\<rparr> = 9000 \<and>
   seg_start \<lparr>seg_start = 1 / 2, seg_end = 19 / 2\<rparr> \<le> 1 \<and>
   clip_start \<lparr>seg_start = 1 / 2, seg_end = 19 / 2\<rparr> = 0 \<and>
   10 - 1 \<le> seg_end \<lparr>seg_start = 1 / 2, seg_end = 19 / 2\<rparr> \<and>
   clip_end 10 \<lparr>seg_start = 1 / 2, seg_end = 19 / 2\<rparr> = 10000"
  using clip_range_computed [of "\<lparr>seg_start = 2, seg_end = 8\<rparr>" 10]
    clip_range_computed [of "\<lparr>seg_start = 1 / 2, seg_end = 19 / 2\<rparr>" 10]
  by simp

text \<open>
  Claim C6. For every segment and every duration \<open>D\<close>, also one shorter than the
  segment's times, the start of the clip is at least 0 and its end is at most
  \<open>D * 1000\<close>.
\<close>

theorem clip_range_bounds:
  "0 \<le> clip_start clip \<and> clip_end D clip \<le> D * 1000"
  by (simp add: clip_start_def clip_end_def)

text \<open>
  A segment inside a file of 10 seconds; a segment and a file of no length, where both
  ends are 0; and a file of 2 seconds, shorter than the segment from 5 to 6 seconds,
  where the end is the 2000 milliseconds of the file and the start is 4000.
\<close>

theorem clip_range_bounds_witness:
  "clip_start \<lparr>seg_start = 2, seg_end = 8\<rparr> = 1000 \<and>
   clip_end 10 \<lparr>seg_start = 2, seg_end = 8\<rparr> = 9000 \<and>
   0 \<le> clip_start \<lparr>seg_start = 2, seg_end = 8\<rparr> \<and>
   clip_end 10 \<lparr>seg_start = 2, seg_end = 8\<rparr> \<le> 10 * 1000 \<and>
   clip_start \<lparr>seg_start = 1 / 2, seg_end = 4 / 5\<rparr> = 0 \<and>
   clip_end 0 \<lparr>seg_start = 1 / 2, seg_end = 4 / 5\<rparr> = 0 \<and>
   0 \<le> clip_start \<lparr>seg_start = 1 / 2, seg_end = 4 / 5\<rparr> \<and>
   clip_end 0 \<lparr>seg_start = 1 / 2, seg_end = 4 / 5\<rparr> \<le> 0 * 1000 \<and>
   clip_start \<lparr>seg_start = 5, seg_end = 6\<rparr> = 4000 \<and>
   clip_end 2 \<lparr>seg_start = 5, seg_end = 6\<rparr> = 2000 \<and>
   0 \<le> clip_start \<lparr>seg_start = 5, seg_end = 6\<rparr> \<and>
   clip_end 2 \<lparr>seg_start = 5, seg_end = 6\<rparr> \<le> 2 * 1000"
  using clip_range_bounds [of "\<lparr>seg_start = 2, seg_end = 8\<rparr>" 10]
    clip_range_bounds [of "\<lparr>seg_start = 1 / 2, seg_end = 4 / 5\<rparr>" 0]
    clip_range_bounds [of "\<lparr>seg_start = 5, seg_end = 6\<rparr>" 2]
  by (simp add: clip_start_def clip_end_def)

section \<open>The transcript\<close>

text \<open>
  Claim C2. The transcript holds, in the order of detection, one entry for each segment
  whose text is not empty after \<open>strip\<close>; the entry's start is the clip's start in
  seconds plus 0.9, its end is the segment's own end. A 10 second file with the one
  segment from 2 to 8 seconds and a transcriber that answers \<open>hello\<close> gives the
  transcript with the one entry from 1.9 to 8 seconds.
\<close>

theorem transcript_entries:
  "main_loop D M segs [] =
     [\<lparr>entry_start = clip_start clip / 1000 + 0.9, entry_end = seg_end clip,
       entry_text = strip (M (clip_start clip) (clip_end D clip))\<rparr>.
      clip \<leftarrow> segs, strip (M (clip_start clip) (clip_end D clip)) \<noteq> []] \<and>
   main_loop 10 (\<lambda>cs ce. ''hello'') [\<lparr>seg_start = 2, seg_end = 8\<rparr>] [] =
     [\<lparr>entry_start = 1.9, entry_end = 8, entry_text = ''hello''\<rparr>]"
  by (simp add: main_loop_append clip_start_def clip_end_def strip_def py_isspace_def)

text \<open>
  Claim C5. No entry of the transcript has an empty text, and the transcript has as many
  entries as there are segments less those whose text is empty after \<open>strip\<close>: with
  one such segment, one entry less than there are segments.
\<close>

theorem empty_text_skipped:
  "(\<forall>e \<in> set (main_loop D M segs []). entry_text e \<noteq> []) \<and>
   length (main_loop D M segs []) =
     length segs -
     length (filter (\<lambda>clip. strip (M (clip_start clip) (clip_end D clip)) = []) segs) \<and>
   (length (filter (\<lambda>clip. strip (M (clip_start clip) (clip_end D clip)) = []) segs) = 1 \<longrightarrow>
      length (main_loop D M segs []) + 1 = length segs)"
proof -
  let ?emp = "\<lambda>clip. strip (M (clip_start clip) (clip_end D clip)) = []"
  have texts: "\<forall>e \<in> set (main_loop D M segs []). entry_text e \<noteq> []"
    by (auto simp: main_loop_append split: if_splits)
  have len: "length (main_loop D M segs []) + length (filter ?emp segs) = length segs"
    by (induction segs) (simp_all add: main_loop_append)
  from texts len show ?thesis by simp
qed

text \<open>
  Two segments of a 20 second file, the first of which is transcribed as two blanks:
  the transcript is the one entry of the second.
\<close>

theorem empty_text_skipped_witness:
  "entry_text \<lparr>entry_start = 11.9, entry_end = 15, entry_text = ''hello''\<rparr> \<noteq> [] \<and>
   main_loop 20 (\<lambda>cs ce. if cs = 1000 then ''  '' else ''hello'')
        [\<lparr>seg_start = 2, seg_end = 8\<rparr>, \<lparr>seg_start = 12, seg_end = 15\<rparr>] [] =
     [\<lparr>entry_start = 11.9, entry_end = 15, entry_text = ''hello''\<rparr>] \<and>
   length (filter (\<lambda>clip. strip ((\<lambda>cs ce. if cs = 1000 then ''  '' else ''hello'')
        (clip_start clip) (clip_end 20 clip)) = [])
        [\<lparr>seg_start = 2, seg_end = 8\<rparr>, \<lparr>seg_start = 12, seg_end = 15\<rparr>]) = 1 \<and>
   length (main_loop 20 (\<lambda>cs ce. if cs = 1000 then ''  '' else ''hello'')
        [\<lparr>seg_start = 2, seg_end = 8\<rparr>, \<lparr>seg_start = 12, seg_end = 15\<rparr>] []) + 1 =
     length [\<lparr>seg_start = 2, seg_end = 8\<rparr>, \<lparr>seg_start = 12, seg_end = 15::real\<rparr>]"
  using empty_text_skipped [of 20 "\<lambda>cs ce. if cs = 1000 then ''  '' else ''hello''"
      "[\<lparr>seg_start = 2, seg_end = 8\<rparr>, \<lparr>seg_start = 12, seg_end = 15\<rparr>]"]
  by (simp add: clip_start_def clip_end_def strip_def py_isspace_def)

text \<open>
  Claim C9. A segment that starts within the first second and has a text gets the entry
  start 0.9, whatever its own start, at its place between the entries of the segments
  before and after it. For the segment from 0.1 to 0.5 seconds the entry starts at 0.9
  and ends at 0.5: the start of an entry can be later than its end.
\<close>

theorem early_segment_start:
  "(seg_start clip \<le> 1 \<and> strip (M (clip_start clip) (clip_end D clip)) \<noteq> [] \<longrightarrow>
      main_loop D M (before @ clip # after) [] =
        main_loop D M before [] @
        \<lparr>entry_start = 0.9, entry_end = seg_end clip,
          entry_text = strip (M (clip_start clip) (clip_end D clip))\<rparr> #
        main_loop D M after []) \<and>
   main_loop 10 (\<lambda>cs ce. ''hello'') [\<lparr>seg_start = 0.1, seg_end = 0.5\<rparr>] [] =
     [\<lparr>entry_start = 0.9, entry_end = 0.5, entry_text = ''hello''\<rparr>] \<and>
   entry_end \<lparr>entry_start = 0.9, entry_end = 0.5, entry_text = ''hello''\<rparr> <
     entry_start \<lparr>entry_start = 0.9, entry_end = 0.5, entry_text = ''hello''\<rparr>"
proof -
  have "main_loop D M (before @ clip # after) [] =
        main_loop D M before [] @
        \<lparr>entry_start = 0.9, entry_end = seg_end clip,
          entry_text = strip (M (clip_start clip) (clip_end D clip))\<rparr> #
        main_loop D M after []"
    if "seg_start clip \<le> 1" "strip (M (clip_start clip) (clip_end D clip)) \<noteq> []"
  proof -
    from that(1) have "clip_start clip = 0" by (simp add: clip_start_def)
    with that(2) show ?thesis by (simp add: main_loop_append)
  qed
  moreover have "main_loop 10 (\<lambda>cs ce. ''hello'') [\<lparr>seg_start = 0.1, seg_end = 0.5\<rparr>] [] =
     [\<lparr>entry_start = 0.9, entry_end = 0.5, entry_text = ''hello''\<rparr>]"
    by (simp add: clip_start_def clip_end_def strip_def py_isspace_def)
  ultimately show ?thesis by simp
qed

theorem early_segment_start_witness:
  "seg_start \<lparr>seg_start = 0.1, seg_end = 0.5\<rparr> \<le> 1 \<and>
   strip ((\<lambda>cs ce. ''hello'') (clip_start \<lparr>seg_start = 0.1, seg_end = 0.5\<rparr>)
     (clip_end 10 \<lparr>seg_start = 0.1, seg_end = 0.5\<rparr>)) \<noteq> [] \<and>
   main_loop 10 (\<lambda>cs ce. ''hello'')
     ([\<lparr>seg_start = 2, seg_end = 8\<rparr>] @ \<lparr>seg_start = 0.1, seg_end = 0.5\<rparr> # []) [] =
     [\<lparr>entry_start = 1.9, entry_end = 8, entry_text = ''hello''\<rparr>,
      \<lparr>entry_start = 0.9, entry_end = 0.5, entry_text = ''hello''\<rparr>]"
  using early_segment_start [of "\<lparr>seg_start = 0.1, seg_end = 0.5\<rparr>" "\<lambda>cs ce. ''hello''" 10
      "[\<lparr>seg_start = 2, seg_end = 8\<rparr>]" "[]"]
  by (simp add: clip_start_def clip_end_def strip_def py_isspace_def)

section \<open>The time format\<close>

text \<open>
  Claim C3. The three examples of the formatter: 209.6678 seconds is \<open>0:03:30.67\<close>,
  60 seconds is \<open>0:01:00.00\<close> and 0 seconds is \<open>0:00:00.00\<close>.
\<close>

theorem sec2hmmssms_examples:
  "sec2hmmssms 209.6678 = ''0:03:30.67'' \<and>
   sec2hmmssms 60 = ''0:01:00.00'' \<and>
   sec2hmmssms 0 = ''0:00:00.00''"
proof -
  have "sec2hmmssms 209.6678 =
      str_int 0 @ '':'' @ format_02d 3 @ '':'' @ format_02_0f 29.6678 @ ''.'' @ format_02d 67"
    by (rule sec2hmmssms_eval) (simp_all add: hundredths_defs)
  moreover have "sec2hmmssms 60 =
      str_int 0 @ '':'' @ format_02d 1 @ '':'' @ format_02_0f 0 @ ''.'' @ format_02d 0"
    by (rule sec2hmmssms_eval) (simp_all add: hundredths_defs)
  moreover have "sec2hmmssms 0 =
      str_int 0 @ '':'' @ format_02d 0 @ '':'' @ format_02_0f 0 @ ''.'' @ format_02d 0"
    by (rule sec2hmmssms_eval) (simp_all add: hundredths_defs)
  ultimately show ?thesis by (simp add: field_defs)
qed

text \<open>
  Claim C10. At 59.996 seconds the fraction of the seconds rounds to 100 hundredths, so
  the last field is the three characters \<open>100\<close> and the result is one character longer
  than \<open>H:MM:SS.CC\<close>.
\<close>

theorem centiseconds_three_digits:
  "(0::real) \<le> 59.996 \<and> sec2hmmssms 59.996 = ''0:00:60.100'' \<and>
   format_02d (py_round (round_binary64 ((59.996 - of_int (py_int 59.996)) * 100))) =
     ''100''"
proof -
  have "sec2hmmssms 59.996 =
      str_int 0 @ '':'' @ format_02d 0 @ '':'' @ format_02_0f 59.996 @ ''.'' @ format_02d 100"
    by (rule sec2hmmssms_eval) (simp_all add: hundredths_defs)
  then have "sec2hmmssms 59.996 = ''0:00:60.100''" by (simp add: field_defs)
  moreover have "py_round (round_binary64 ((59.996 - of_int (py_int 59.996)) * 100)) = 100"
    by (simp add: py_int_def hundredths_defs)
  then have "format_02d (py_round (round_binary64 ((59.996 - of_int (py_int 59.996)) * 100))) =
      ''100''"
    by (simp only: format_02d_100)
  ultimately show ?thesis by simp
qed

text \<open>
  Claim C4, at 1.5 seconds: the result is \<open>0:00:02.50\<close>, its seconds field the rounded
  seconds 2, where the form with the integral seconds is \<open>0:00:01.50\<close>.
\<close>

theorem seconds_not_integral_counterexample:
  "(0::real) \<le> 1.5 \<and> (1.5::real) < 36000 \<and>
   sec2hmmssms 1.5 = ''0:00:02.50'' \<and> spec_sec2hmmssms 1.5 = ''0:00:01.50'' \<and>
   sec2hmmssms 1.5 \<noteq> spec_sec2hmmssms 1.5"
proof -
  have "sec2hmmssms 1.5 =
      str_int 0 @ '':'' @ format_02d 0 @ '':'' @ format_02_0f 1.5 @ ''.'' @ format_02d 50"
    by (rule sec2hmmssms_eval) (simp_all add: hundredths_defs)
  then have code: "sec2hmmssms 1.5 = ''0:00:02.50''" by (simp add: field_defs)
  have spec: "spec_sec2hmmssms 1.5 = ''0:00:01.50''"
    by (simp add: spec_sec2hmmssms_def frac_def field_defs)
  from code spec show ?thesis by simp
qed

text \<open>
  Claim C4, as amended. For \<open>0 \<le> sec < 36000\<close> the result is one digit of hours, two
  digits of minutes, two digits of seconds and the hundredths, separated by \<open>:\<close>, \<open>:\<close>
  and \<open>.\<close>, where with \<open>s\<close> the seconds within the minute (\<open>0 \<le> s < 60\<close>): the hours
  are \<open>\<lfloor>sec / 3600\<rfloor>\<close>, the minutes \<open>\<lfloor>sec / 60\<rfloor> mod 60\<close>, the seconds field is \<open>s\<close>
  rounded to the nearest integer (a tie to the even one; at most 60), and the hundredths
  are the float product of the fraction of \<open>s\<close> and 100, rounded to the nearest integer
  in the same way: two digits below 100, and the three characters \<open>100\<close> otherwise.
\<close>

theorem sec2hmmssms_format:
  assumes "0 \<le> sec" and "sec < 36000"
  shows "let s = sec - of_int \<lfloor>sec / 60\<rfloor> * 60;
             H = nat \<lfloor>sec / 3600\<rfloor>;
             M = nat (\<lfloor>sec / 60\<rfloor> mod 60);
             S = nat (py_round s);
             C = nat (py_round (round_binary64 (frac s * 100)))
         in sec2hmmssms sec =
              [digit H] @ '':'' @ [digit (M div 10), digit (M mod 10)] @ '':'' @
              [digit (S div 10), digit (S mod 10)] @ ''.'' @
              (if C < 100 then [digit (C div 10), digit (C mod 10)] else ''100'') \<and>
            H < 10 \<and> M < 60 \<and> S \<le> 60 \<and> C \<le> 100 \<and> 0 \<le> s \<and> s < 60"
proof -
  define s where "s = sec - of_int \<lfloor>sec / 60\<rfloor> * 60"
  define h where "h = \<lfloor>sec / 3600\<rfloor>"
  define m where "m = \<lfloor>sec / 60\<rfloor> mod 60"
  define c where "c = py_round (round_binary64 (frac s * 100))"
  have s: "0 \<le> s" "s < 60" using seconds_range [of sec] by (simp_all add: s_def)
  have h: "0 \<le> h" "h < 10" using assms by (simp_all add: h_def floor_less_iff)
  have m: "0 \<le> m" "m < 60" by (simp_all add: m_def)
  have "0 \<le> \<lfloor>s\<rfloor>" "\<lfloor>s\<rfloor> \<le> 59" using s by (simp, linarith)
  with py_round_bounds [of s] have r: "0 \<le> py_round s" "py_round s \<le> 60" by linarith+
  have c: "0 \<le> c" "c \<le> 100" using centiseconds_range [of s] by (simp_all add: c_def)
  have hours: "str_int h = [digit (nat h)]"
    using h by (simp add: str_int_def str_nat_digit)
  have minutes: "format_02d m = [digit (nat m div 10), digit (nat m mod 10)]"
    using m by (simp add: format_02d_two_digits)
  have seconds:
    "format_02_0f s = [digit (nat (py_round s) div 10), digit (nat (py_round s) mod 10)]"
    using s r by (simp add: format_02_0f_nonneg format_02d_two_digits)
  have centis: "format_02d c =
      (if nat c < 100 then [digit (nat c div 10), digit (nat c mod 10)] else ''100'')"
  proof (cases "c < 100")
    case True
    with c show ?thesis by (simp add: format_02d_two_digits)
  next
    case False
    with c have "c = 100" by simp
    then show ?thesis by (simp add: format_02d_100)
  qed
  have "sec2hmmssms sec =
      str_int h @ '':'' @ format_02d m @ '':'' @ format_02_0f s @ ''.'' @ format_02d c"
    unfolding s_def h_def m_def c_def by (rule sec2hmmssms_fields)
  then have shape: "sec2hmmssms sec =
      [digit (nat h)] @ '':'' @ [digit (nat m div 10), digit (nat m mod 10)] @ '':'' @
      [digit (nat (py_round s) div 10), digit (nat (py_round s) mod 10)] @ ''.'' @
      (if nat c < 100 then [digit (nat c div 10), digit (nat c mod 10)] else ''100'')"
    by (simp only: hours minutes seconds centis)
  have bounds: "nat h < 10" "nat m < 60" "nat (py_round s) \<le> 60" "nat c \<le> 100"
    using h m r c by linarith+
  from shape bounds s show ?thesis
    unfolding Let_def s_def [symmetric] h_def [symmetric] m_def [symmetric] c_def [symmetric]
    by (intro conjI)
qed

text \<open>
  At 209.6678 seconds, the example of the docstring: the seconds within the minute are
  29.6678, the seconds field is 30. At the floats that Python reads for \<open>0.005\<close> and
  \<open>0.995\<close>, just above 0.005 and just below 0.995, the products round to the floats
  0.5 and 99.5, and the hundredths are 0 and 100.
\<close>

theorem sec2hmmssms_format_witness:
  "(0::real) \<le> 209.6678 \<and> (209.6678::real) < 36000 \<and>
   sec2hmmssms 209.6678 = ''0:03:30.67'' \<and>
   nat (py_round (209.6678 - of_int \<lfloor>209.6678 / 60 :: real\<rfloor> * 60)) = 30 \<and>
   nat \<lfloor>209.6678 - of_int \<lfloor>209.6678 / 60 :: real\<rfloor> * 60 :: real\<rfloor> = 29 \<and>
   (0::real) \<le> 5764607523034235 / 2 ^ 60 \<and> (5764607523034235 / 2 ^ 60 :: real) < 36000 \<and>
   sec2hmmssms (5764607523034235 / 2 ^ 60) = ''0:00:00.00'' \<and>
   (0::real) \<le> 8962163258467287 / 2 ^ 53 \<and> (8962163258467287 / 2 ^ 53 :: real) < 36000 \<and>
   sec2hmmssms (8962163258467287 / 2 ^ 53) = ''0:00:01.100''"
proof -
  have c1: "py_round (round_binary64
      (frac (209.6678 - of_int \<lfloor>209.6678 / 60 :: real\<rfloor> * 60) * 100)) = 67"
    by (simp add: hundredths_defs)
  have c2: "py_round (round_binary64
      (frac (5764607523034235 / 2 ^ 60 - of_int \<lfloor>5764607523034235 / 2 ^ 60 / 60 :: real\<rfloor> * 60) *
       100)) = 0"
    by (simp add: hundredths_defs)
  have c3: "py_round (round_binary64
      (frac (8962163258467287 / 2 ^ 53 - of_int \<lfloor>8962163258467287 / 2 ^ 53 / 60 :: real\<rfloor> * 60) *
       100)) = 100"
    by (simp add: hundredths_defs)
  have "sec2hmmssms 209.6678 = ''0:03:30.67''"
    using sec2hmmssms_format [of "209.6678"] unfolding Let_def c1
    by (simp add: py_round_def digit_def)
  moreover have "sec2hmmssms (5764607523034235 / 2 ^ 60) = ''0:00:00.00''"
    using sec2hmmssms_format [of "5764607523034235 / 2 ^ 60"] unfolding Let_def c2
    by (simp add: py_round_def digit_def)
  moreover have "sec2hmmssms (8962163258467287 / 2 ^ 53) = ''0:00:01.100''"
    using sec2hmmssms_format [of "8962163258467287 / 2 ^ 53"] unfolding Let_def c3
    by (simp add: py_round_def digit_def)
  ultimately show ?thesis by (simp add: py_round_def)
qed

text \<open>
  Claim C7. When the seconds within the minute are at least 59.5, the seconds field is
  \<open>60\<close>, and the fields before it are the hours and minutes of the whole minutes of
  \<open>sec\<close>: nothing is carried into the minutes.
\<close>

theorem seconds_field_60:
  assumes "59.5 \<le> sec - of_int \<lfloor>sec / 60\<rfloor> * 60"
  shows "sec2hmmssms sec =
     str_int \<lfloor>sec / 3600\<rfloor> @ '':'' @ format_02d (\<lfloor>sec / 60\<rfloor> mod 60) @ '':'' @
     ''60'' @ ''.'' @
     format_02d (py_round (round_binary64 (frac (sec - of_int \<lfloor>sec / 60\<rfloor> * 60) * 100)))"
proof -
  define s where "s = sec - of_int \<lfloor>sec / 60\<rfloor> * 60"
  have s: "59.5 \<le> s" "s < 60" using assms seconds_range [of sec] by (simp_all add: s_def)
  then have fl: "\<lfloor>s\<rfloor> = 59" by linarith
  with s have "py_round s = 60" by (simp add: py_round_def Let_def)
  with s have "format_02_0f s = ''60''"
    by (simp add: format_02_0f_nonneg format_defs)
  then show ?thesis
    unfolding s_def by (simp add: sec2hmmssms_fields)
qed

theorem seconds_field_60_witness:
  "(59.5::real) \<le> 3599.5 - of_int \<lfloor>3599.5 / 60 :: real\<rfloor> * 60 \<and>
   sec2hmmssms 3599.5 = ''0:59:60.50'' \<and> sec2hmmssms 59.5 = ''0:00:60.50''"
proof -
  have c1: "py_round (round_binary64
      (frac (3599.5 - of_int \<lfloor>3599.5 / 60 :: real\<rfloor> * 60) * 100)) = 50"
    by (simp add: hundredths_defs)
  have c2: "py_round (round_binary64
      (frac (59.5 - of_int \<lfloor>59.5 / 60 :: real\<rfloor> * 60) * 100)) = 50"
    by (simp add: hundredths_defs)
  have "sec2hmmssms 3599.5 = ''0:59:60.50''"
    using seconds_field_60 [of "3599.5"] unfolding c1 by (simp add: field_defs)
  moreover have "sec2hmmssms 59.5 = ''0:00:60.50''"
    using seconds_field_60 [of "59.5"] unfolding c2 by (simp add: field_defs)
  ultimately show ?thesis by simp
qed

section \<open>The subtitle\<close>

text \<open>
  Claim C8. What \<open>make_ass\<close> does depends on the transcript file alone: on two sets of
  files that agree on the transcript it fails in the same way or writes the same
  subtitle, which is the fixed header followed by one \<open>Dialogue\<close> line for each entry
  of the transcript, in order.
\<close>

theorem make_ass_deterministic:
  assumes "files1 transcript = files2 transcript"
  shows "case make_ass transcript files1 of
           Inl e \<Rightarrow> make_ass transcript files2 = Inl e
         | Inr out1 \<Rightarrow>
             (\<exists>out2 trs.
                make_ass transcript files2 = Inr out2 \<and>
                files1 transcript = Some (Json trs) \<and>
                out1 (removesuffix transcript ''.json'' @ ''.ass'') =
                  Some (Text (subtitle_header @ concat (map dialogue trs))) \<and>
                out2 (removesuffix transcript ''.json'' @ ''.ass'') =
                  out1 (removesuffix transcript ''.json'' @ ''.ass''))"
  using assms
  by (auto simp: make_ass_def add_dialogues_append split: option.splits file_content.splits)

text \<open>
  The transcript of one entry in \<open>t.json\<close>, alone and beside another file: both runs
  write the header and the one line to \<open>t.ass\<close>.
\<close>

theorem make_ass_deterministic_witness:
  "[''t.json'' \<mapsto> Json [\<lparr>entry_start = 1.9, entry_end = 8, entry_text = ''hello''\<rparr>]] ''t.json'' =
   [''t.json'' \<mapsto> Json [\<lparr>entry_start = 1.9, entry_end = 8, entry_text = ''hello''\<rparr>],
    ''u.ass'' \<mapsto> Text ''x''] ''t.json'' \<and>
   (\<exists>out1 out2.
      make_ass ''t.json''
        [''t.json'' \<mapsto> Json [\<lparr>entry_start = 1.9, entry_end = 8, entry_text = ''hello''\<rparr>]] =
        Inr out1 \<and>
      make_ass ''t.json''
        [''t.json'' \<mapsto> Json [\<lparr>entry_start = 1.9, entry_end = 8, entry_text = ''hello''\<rparr>],
         ''u.ass'' \<mapsto> Text ''x''] = Inr out2 \<and>
      out1 ''t.ass'' =
        Some (Text (subtitle_header @
          ''Dialogue: 0,0:00:02.90,0:00:08.00,English,,0,0,0,,hello\<newline>'')) \<and>
      out2 ''t.ass'' = out1 ''t.ass'')"
  using make_ass_deterministic
    [of "[''t.json'' \<mapsto> Json [\<lparr>entry_start = 1.9, entry_end = 8, entry_text = ''hello''\<rparr>]]"
      "''t.json''"
      "[''t.json'' \<mapsto> Json [\<lparr>entry_start = 1.9, entry_end = 8, entry_text = ''hello''\<rparr>],
        ''u.ass'' \<mapsto> Text ''x'']"]
  by (simp add: make_ass_def removesuffix_def dialogue_def dialogue_times)

end
